theory Spec2Isabelle
  imports Main "HOL-Library.AList" "HOL-Library.Monad_Syntax"
begin

section \<open>Python string primitives\<close>

text \<open>
  Text is modelled as \<^typ>\<open>string\<close> with the ASCII behaviour of the \<open>str\<close>
  methods the backend calls: \<open>split()\<close>, \<open>strip()\<close>, \<open>lower()\<close>, \<open>title()\<close>,
  \<open>join\<close>, \<open>replace(' ', '_')\<close> and \<open>str(int)\<close>. Characters outside ASCII are
  treated as uncased and as non-whitespace.
\<close>

definition whitespace :: "char list" where
  "whitespace =
     [CHR 0x09, CHR 0x0A, CHR 0x0B, CHR 0x0C, CHR 0x0D,
      CHR 0x1C, CHR 0x1D, CHR 0x1E, CHR 0x1F, CHR 0x20]"

definition isspace :: "char \<Rightarrow> bool" where
  "isspace c = (c \<in> set whitespace)"

text \<open>
  \<open>s.split()\<close> without a separator: scan the text, cut at every run of whitespace,
  and never emit an empty token. The first argument is the token read so far.
\<close>

fun split_from :: "string \<Rightarrow> string \<Rightarrow> string list" where
  "split_from w [] = (if w = [] then [] else [w])"
| "split_from w (c # cs) =
     (if isspace c then (if w = [] then split_from [] cs else w # split_from [] cs)
      else split_from (w @ [c]) cs)"

definition str_split :: "string \<Rightarrow> string list" where
  "str_split s = split_from [] s"

definition str_strip :: "string \<Rightarrow> string" where
  "str_strip s = rev (dropWhile isspace (rev (dropWhile isspace s)))"

definition isupper :: "char \<Rightarrow> bool" where
  "isupper c = (65 \<le> (of_char c :: nat) \<and> (of_char c :: nat) \<le> 90)"

definition islower :: "char \<Rightarrow> bool" where
  "islower c = (97 \<le> (of_char c :: nat) \<and> (of_char c :: nat) \<le> 122)"

definition tolower :: "char \<Rightarrow> char" where
  "tolower c = (if isupper c then char_of ((of_char c :: nat) + 32) else c)"

definition toupper :: "char \<Rightarrow> char" where
  "toupper c = (if islower c then char_of ((of_char c :: nat) - 32) else c)"

definition str_lower :: "string \<Rightarrow> string" where
  "str_lower s = map tolower s"

text \<open>
  \<open>s.title()\<close>: a character that follows a cased character is lower-cased, any other
  character is upper-cased; the flag is whether the previous character was cased.
\<close>

fun title_from :: "bool \<Rightarrow> string \<Rightarrow> string" where
  "title_from previous_is_cased [] = []"
| "title_from previous_is_cased (c # cs) =
     (if previous_is_cased then tolower c else toupper c)
       # title_from (isupper c \<or> islower c) cs"

definition str_title :: "string \<Rightarrow> string" where
  "str_title s = title_from False s"

fun str_join :: "string \<Rightarrow> string list \<Rightarrow> string" where
  "str_join sep [] = []"
| "str_join sep [x] = x"
| "str_join sep (x # y # ys) = x @ sep @ str_join sep (y # ys)"

definition replace_space :: "string \<Rightarrow> string" where
  "replace_space s = map (\<lambda>c. if c = CHR '' '' then CHR ''_'' else c) s"

definition digit_char :: "nat \<Rightarrow> char" where
  "digit_char d = char_of (48 + d)"

function str_nat :: "nat \<Rightarrow> string" where
  "str_nat n = (if n < 10 then [digit_char n] else str_nat (n div 10) @ [digit_char (n mod 10)])"
  by pat_completeness auto
termination
  by (relation "measure id") auto

declare str_nat.simps [simp del]

definition str_int :: "int \<Rightarrow> string" where
  "str_int i = (if i < 0 then CHR ''-'' # str_nat (nat (- i)) else str_nat (nat i))"


section \<open>Enrichment adapter: \<open>summarize\<close>\<close>




section \<open>Dictionaries\<close>

text \<open>
  A \<open>dict\<close> is an association list in insertion order. \<open>d.get(k, default)\<close> is
  \<open>dict_get\<close>; \<open>d[k]\<close> is \<open>dict_item\<close>, \<open>None\<close> standing for \<open>KeyError\<close>;
  \<open>d[k] = v\<close> is \<^const>\<open>AList.update\<close>, which overwrites in place and puts a new key
  last; \<open>k in d\<close> is membership in the keys.
\<close>

definition dict_get :: "('k \<times> 'v) list \<Rightarrow> 'k \<Rightarrow> 'v \<Rightarrow> 'v" where
  "dict_get d k dflt = (case map_of d k of Some v \<Rightarrow> v | None \<Rightarrow> dflt)"

definition dict_item :: "('k \<times> 'v) list \<Rightarrow> 'k \<Rightarrow> 'v option" where
  "dict_item d k = map_of d k"

definition dict_contains :: "('k \<times> 'v) list \<Rightarrow> 'k \<Rightarrow> bool" where
  "dict_contains d k = (k \<in> set (map fst d))"

text \<open>\<open>d[k] += 1\<close>: reads \<open>d[k]\<close> (\<open>KeyError\<close> when absent), then stores.\<close>

definition dict_increment :: "('k \<times> int) list \<Rightarrow> 'k \<Rightarrow> ('k \<times> int) list option" where
  "dict_increment d k = do { v \<leftarrow> dict_item d k; Some (AList.update k (v + 1) d) }"


section \<open>Comparative analyzer: \<open>analyze_articles\<close>\<close>

text \<open>
  An article is a mapping; \<open>analyze_articles\<close> reads its keys \<open>title\<close> and
  \<open>sentiment\<close> only, both text, either of which may be absent.
\<close>

record article =
  title :: "string option"
  sentiment :: "string option"

text \<open>
  The analysis mapping: what \<open>analyze_articles\<close> returns and \<open>generate_tts\<close> reads.
  A key that is absent from the mapping is \<open>None\<close>.
\<close>

record analysis =
  error :: "string option"
  sentiment_distribution :: "(string \<times> int) list option"
  common_topics :: "string list option"
  coverage_differences :: "string list option"
  final_sentiment_analysis :: "string option"

definition empty_analysis :: analysis where
  "empty_analysis =
     \<lparr>error = None, sentiment_distribution = None, common_topics = None,
      coverage_differences = None, final_sentiment_analysis = None\<rparr>"

text \<open>The variables the loop over the articles updates.\<close>

record tally =
  sentiment_counts :: "(string \<times> int) list"
  all_topics :: "string list"
  pos_titles :: "string list"
  neg_titles :: "string list"

definition initial_tally :: tally where
  "initial_tally =
     \<lparr>sentiment_counts = [(''Positive'', 0), (''Negative'', 0), (''Neutral'', 0)],
      all_topics = [], pos_titles = [], neg_titles = []\<rparr>"

text \<open>\<open>[word.strip().lower() for word in title.split()[:3] if word.strip()]\<close>\<close>

definition title_topics :: "string \<Rightarrow> string list" where
  "title_topics t =
     map (\<lambda>word. str_lower (str_strip word))
       (filter (\<lambda>word. str_strip word \<noteq> []) (take 3 (str_split t)))"

text \<open>\<open>article.get('sentiment', 'Neutral')\<close> and \<open>article.get('title', '')\<close>\<close>

definition get_sentiment :: "article \<Rightarrow> string" where
  "get_sentiment a = (case sentiment a of Some l \<Rightarrow> l | None \<Rightarrow> ''Neutral'')"

definition get_title :: "article \<Rightarrow> string" where
  "get_title a = (case title a of Some t \<Rightarrow> t | None \<Rightarrow> [])"

text \<open>One iteration of \<open>for article in articles\<close>; \<open>None\<close> is a raised exception.\<close>

definition tally_article :: "tally \<Rightarrow> article \<Rightarrow> tally option" where
  "tally_article st a =
     (let s = get_sentiment a; t = get_title a
      in do {
        counts \<leftarrow> (if dict_contains (sentiment_counts st) s
                   then dict_increment (sentiment_counts st) s
                   else dict_increment (sentiment_counts st) ''Neutral'');
        Some \<lparr>sentiment_counts = counts,
              all_topics = all_topics st @ title_topics t,
              pos_titles = (if s = ''Positive'' then pos_titles st @ [t] else pos_titles st),
              neg_titles = (if s = ''Positive'' then neg_titles st
                            else if s = ''Negative'' then neg_titles st @ [t]
                            else neg_titles st)\<rparr>
      })"

fun tally_articles :: "tally \<Rightarrow> article list \<Rightarrow> tally option" where
  "tally_articles st [] = Some st"
| "tally_articles st (a # as) = do { st' \<leftarrow> tally_article st a; tally_articles st' as }"

text \<open>\<open>for topic in all_topics: topic_counter[topic] = topic_counter.get(topic, 0) + 1\<close>\<close>

fun count_topics :: "(string \<times> int) list \<Rightarrow> string list \<Rightarrow> (string \<times> int) list" where
  "count_topics topic_counter [] = topic_counter"
| "count_topics topic_counter (topic # topics) =
     count_topics (AList.update topic (dict_get topic_counter topic 0 + 1) topic_counter) topics"

text \<open>
  \<open>sorted(items, key=lambda x: x[1], reverse=True)\<close> is a stable sort into descending
  order of the count: items with equal counts keep the order they have in \<open>items\<close>.
\<close>

definition sorted_by_count_desc :: "(string \<times> int) list \<Rightarrow> (string \<times> int) list" where
  "sorted_by_count_desc items = sort_key (\<lambda>x. - snd x) items"

definition overall_sentiment :: "int \<Rightarrow> int \<Rightarrow> string" where
  "overall_sentiment positive negative =
     (if positive > negative then ''News coverage is mostly positive.''
      else if negative > positive then ''News coverage is mostly negative.''
      else ''Overall news coverage appears balanced.'')"

text \<open>The body of the \<open>try\<close> block after the emptiness check.\<close>

definition analyze_body :: "article list \<Rightarrow> analysis option" where
  "analyze_body articles = do {
     st \<leftarrow> tally_articles initial_tally articles;
     let topic_counter = count_topics [] (all_topics st);
     let topics = map (\<lambda>topic. str_title (fst topic)) (take 3 (sorted_by_count_desc topic_counter));
     positive \<leftarrow> dict_item (sentiment_counts st) ''Positive'';
     negative \<leftarrow> dict_item (sentiment_counts st) ''Negative'';
     let differences =
           [str_int positive @ '' articles highlight positive developments'',
            str_int negative @ '' articles discuss challenges/risks'']
           @ (if pos_titles st \<noteq> []
              then [''Positive articles include: '' @ str_join '', '' (take 2 (pos_titles st))]
              else [])
           @ (if neg_titles st \<noteq> []
              then [''Negative articles include: '' @ str_join '', '' (take 2 (neg_titles st))]
              else []);
     Some \<lparr>error = None,
           sentiment_distribution = Some (sentiment_counts st),
           common_topics = Some topics,
           coverage_differences = Some differences,
           final_sentiment_analysis = Some (overall_sentiment positive negative)\<rparr>
   }"

definition analyze_articles :: "article list \<Rightarrow> analysis" where
  "analyze_articles articles =
     (if articles = [] then empty_analysis\<lparr>error := Some ''No articles to analyze''\<rparr>
      else case analyze_body articles of
             Some report \<Rightarrow> report
           | None \<Rightarrow> empty_analysis\<lparr>error := Some ''Analysis failed''\<rparr>)"


section \<open>Narrative synthesizer and speech adapter: \<open>generate_tts\<close>\<close>

text \<open>
  What a request can carry as \<open>analysis\<close>: \<open>None\<close>, a scalar, a list, or a mapping.
\<close>

datatype payload =
    PyNone
  | PyBool bool
  | PyInt int
  | PyStr string
  | PyList "payload list"
  | PyDict analysis

text \<open>Python's truth value: \<open>not x\<close> is \<open>\<not> truthy x\<close>. A mapping is false when it has no key.\<close>

fun truthy :: "payload \<Rightarrow> bool" where
  "truthy PyNone = False"
| "truthy (PyBool b) = b"
| "truthy (PyInt i) = (i \<noteq> 0)"
| "truthy (PyStr s) = (s \<noteq> [])"
| "truthy (PyList xs) = (xs \<noteq> [])"
| "truthy (PyDict d) = (d \<noteq> empty_analysis)"

fun isinstance_dict :: "payload \<Rightarrow> bool" where
  "isinstance_dict (PyDict d) = True"
| "isinstance_dict _ = False"

text \<open>
  The script, lines 141 to 162 of \<open>generate_tts\<close>: the \<open>.get\<close> defaults, the f-string,
  the optional topics sentence, and the numbered insights built by the loop over
  \<open>enumerate(coverage_diff, start=1)\<close>.
\<close>

definition build_summary_text :: "string \<Rightarrow> analysis \<Rightarrow> string" where
  "build_summary_text company_name analysis_data =
     (let sentiment_summary =
            (case final_sentiment_analysis analysis_data of
               Some s \<Rightarrow> s | None \<Rightarrow> ''No sentiment analysis available'');
          sentiment_dist =
            (case sentiment_distribution analysis_data of Some d \<Rightarrow> d | None \<Rightarrow> []);
          topics = (case common_topics analysis_data of Some ts \<Rightarrow> ts | None \<Rightarrow> []);
          coverage_diff =
            (case coverage_differences analysis_data of Some ds \<Rightarrow> ds | None \<Rightarrow> []);
          summary_text =
            ''Company: '' @ company_name @ ''. ''
            @ ''Overall Sentiment: '' @ sentiment_summary @ ''. ''
            @ ''Positive articles: '' @ str_int (dict_get sentiment_dist ''Positive'' 0) @ '', ''
            @ ''Negative articles: '' @ str_int (dict_get sentiment_dist ''Negative'' 0) @ '', ''
            @ ''Neutral articles: '' @ str_int (dict_get sentiment_dist ''Neutral'' 0) @ ''. '';
          summary_text =
            (if topics \<noteq> []
             then summary_text @ ''Common topics include '' @ str_join '', '' topics @ ''. ''
             else summary_text);
          summary_text =
            (if coverage_diff \<noteq> []
             then let insights =
                        map (\<lambda>(i, insight). str_int (int i) @ ''. '' @ insight)
                          (List.enumerate 1 coverage_diff)
                  in summary_text @ ''Key insights are: '' @ str_join '' '' insights @ ''. ''
             else summary_text)
      in summary_text)"

text \<open>
  The collaborators of \<open>generate_tts\<close>. \<open>py_hash\<close> is the built-in \<open>hash\<close> of the
  running interpreter, which salts the hash of a \<open>str\<close> with a seed drawn when the
  process starts. A capability that raises is \<open>None\<close> or \<open>False\<close>.
\<close>

record tts_env =
  makedirs_ok :: bool
  translate :: "string \<Rightarrow> string option"
  py_hash :: "string \<Rightarrow> int"
  tts_save :: "string \<Rightarrow> string \<Rightarrow> bool"
  path_exists :: "string \<Rightarrow> bool"

text \<open>
  The calls \<open>generate_tts\<close> makes to its collaborators, in order: \<open>os.makedirs\<close>, the
  translation of a script, the synthesis of a translated text into the file of a name, and
  \<open>os.path.exists\<close> on that file.
\<close>

datatype effect =
    Makedirs
  | Translate string
  | Save string string
  | Exists string

definition audio_filename :: "tts_env \<Rightarrow> string \<Rightarrow> string \<Rightarrow> string" where
  "audio_filename env company_name summary_text =
     replace_space company_name @ ''_'' @ str_int (py_hash env summary_text) @ ''.mp3''"

text \<open>
  \<open>generate_tts\<close> returns the filename, or \<open>None\<close>; the first component is the list of
  calls it made. Logging is not modelled.
\<close>

definition generate_tts :: "tts_env \<Rightarrow> string \<Rightarrow> payload \<Rightarrow> effect list \<times> string option" where
  "generate_tts env company_name analysis_data =
     (if \<not> truthy analysis_data \<or> \<not> isinstance_dict analysis_data then ([], None)
      else case analysis_data of
        PyDict d \<Rightarrow>
          if \<not> makedirs_ok env then ([Makedirs], None)
          else
            let summary_text = build_summary_text company_name d in
            (case translate env summary_text of
               None \<Rightarrow> ([Makedirs, Translate summary_text], None)
             | Some translated_text \<Rightarrow>
                 let filename = audio_filename env company_name summary_text;
                     calls = [Makedirs, Translate summary_text, Save translated_text filename]
                 in if \<not> tts_save env translated_text filename then (calls, None)
                    else if path_exists env filename then (calls @ [Exists filename], Some filename)
                    else (calls @ [Exists filename], None))
      | _ \<Rightarrow> ([], None))"


section \<open>The \<open>tts\<close> view\<close>

text \<open>
  A response is its status code and its body. \<open>company\<close> is
  \<open>request.data.get('company_name', '')\<close>, \<open>analysis_data\<close> is
  \<open>request.data.get('analysis')\<close>, and \<open>absolute_uri\<close> is
  \<open>request.build_absolute_uri\<close> applied to \<open>MEDIA_URL\<close> followed by the filename.
\<close>

datatype response = Response nat "(string \<times> string) list"

definition tts :: "tts_env \<Rightarrow> (string \<Rightarrow> string) \<Rightarrow> string \<Rightarrow> payload \<Rightarrow> response" where
  "tts env absolute_uri company analysis_data =
     (let company_name = str_strip company in
      if company_name = [] then Response 400 [(''error'', ''company_name is required'')]
      else if \<not> truthy analysis_data
        then Response 400 [(''error'', ''Analysis data is required'')]
      else case snd (generate_tts env company_name analysis_data) of
             None \<Rightarrow> Response 500 [(''error'', ''TTS generation failed'')]
           | Some filename \<Rightarrow>
               if filename = [] then Response 500 [(''error'', ''TTS generation failed'')]
               else Response 200 [(''audio_url'', absolute_uri filename)])"


section \<open>Vocabulary of the properties\<close>

text \<open>The number of articles carrying a label, and the titles of those articles, in order.\<close>

definition count_sentiment :: "string \<Rightarrow> article list \<Rightarrow> int" where
  "count_sentiment l articles = int (length (filter (\<lambda>a. get_sentiment a = l) articles))"

definition count_unlabelled :: "article list \<Rightarrow> int" where
  "count_unlabelled articles =
     int (length (filter (\<lambda>a. get_sentiment a \<noteq> ''Positive'' \<and> get_sentiment a \<noteq> ''Negative'')
                    articles))"

definition titles_with :: "string \<Rightarrow> article list \<Rightarrow> string list" where
  "titles_with l articles = map get_title (filter (\<lambda>a. get_sentiment a = l) articles)"

text \<open>The first three tokens of every title, lower-cased, article after article.\<close>

definition leading_tokens :: "article list \<Rightarrow> string list" where
  "leading_tokens articles =
     concat (map (\<lambda>a. map str_lower (take 3 (str_split (get_title a)))) articles)"



text \<open>Reading a decimal numeral back.\<close>

definition digits_value :: "string \<Rightarrow> nat" where
  "digits_value s = foldl (\<lambda>acc c. 10 * acc + ((of_char c :: nat) - 48)) 0 s"


section \<open>Properties of \<open>summarize\<close>\<close>







section \<open>Properties of \<open>analyze_articles\<close>\<close>

subsection \<open>Tokens and the loop over the articles\<close>


lemma split_from_tokens:
  "\<forall>c\<in>set w. \<not> isspace c \<Longrightarrow>
   \<forall>x\<in>set (split_from w cs). x \<noteq> [] \<and> (\<forall>c\<in>set x. \<not> isspace c)"
proof (induction cs arbitrary: w)
  case Nil
  then show ?case by simp
next
  case (Cons c cs)
  have empty: "\<forall>x\<in>set (split_from [] cs). x \<noteq> [] \<and> (\<forall>c\<in>set x. \<not> isspace c)"
    using Cons.IH [of "[]"] by simp
  show ?case
  proof (cases "isspace c")
    case True
    then show ?thesis using empty Cons.prems by simp
  next
    case False
    then have "\<forall>d\<in>set (w @ [c]). \<not> isspace d" using Cons.prems by simp
    from Cons.IH [OF this] show ?thesis using False by simp
  qed
qed

lemma str_split_tokens:
  "x \<in> set (str_split s) \<Longrightarrow> x \<noteq> [] \<and> (\<forall>c\<in>set x. \<not> isspace c)"
  unfolding str_split_def using split_from_tokens [of "[]" s] by simp

lemma dropWhile_none: "\<forall>c\<in>set w. \<not> P c \<Longrightarrow> dropWhile P w = w"
  by (cases w) auto

lemma str_strip_token: "\<forall>c\<in>set w. \<not> isspace c \<Longrightarrow> str_strip w = w"
  by (simp add: str_strip_def dropWhile_none)

lemma title_topics_eq: "title_topics t = map str_lower (take 3 (str_split t))"
proof -
  have tok: "str_strip w = w \<and> w \<noteq> []" if "w \<in> set (take 3 (str_split t))" for w
  proof -
    from that have "w \<in> set (str_split t)" by (rule in_set_takeD)
    then show ?thesis using str_split_tokens [of w t] str_strip_token [of w] by simp
  qed
  then have "filter (\<lambda>word. str_strip word \<noteq> []) (take 3 (str_split t)) = take 3 (str_split t)"
    by (simp add: filter_id_conv)
  then show ?thesis
    using tok by (simp add: title_topics_def)
qed

lemma tally_article_step:
  assumes "sentiment_counts st = [(''Positive'', p), (''Negative'', n), (''Neutral'', z)]"
  shows "tally_article st a = Some
     \<lparr>sentiment_counts =
        [(''Positive'', p + count_sentiment ''Positive'' [a]),
         (''Negative'', n + count_sentiment ''Negative'' [a]),
         (''Neutral'', z + count_unlabelled [a])],
      all_topics = all_topics st @ leading_tokens [a],
      pos_titles = pos_titles st @ titles_with ''Positive'' [a],
      neg_titles = neg_titles st @ titles_with ''Negative'' [a]\<rparr>"
  using assms
  by (simp add: tally_article_def dict_contains_def dict_increment_def dict_item_def Let_def
      count_sentiment_def count_unlabelled_def leading_tokens_def titles_with_def title_topics_eq)

lemma tally_articles_result:
  assumes "sentiment_counts st = [(''Positive'', p), (''Negative'', n), (''Neutral'', z)]"
  shows "tally_articles st articles = Some
     \<lparr>sentiment_counts =
        [(''Positive'', p + count_sentiment ''Positive'' articles),
         (''Negative'', n + count_sentiment ''Negative'' articles),
         (''Neutral'', z + count_unlabelled articles)],
      all_topics = all_topics st @ leading_tokens articles,
      pos_titles = pos_titles st @ titles_with ''Positive'' articles,
      neg_titles = neg_titles st @ titles_with ''Negative'' articles\<rparr>"
  using assms
proof (induction articles arbitrary: st p n z)
  case Nil
  then show ?case
    by (simp add: count_sentiment_def count_unlabelled_def leading_tokens_def titles_with_def)
next
  case (Cons a as)
  show ?case
    apply (simp add: tally_article_step [OF Cons.prems])
    apply (subst Cons.IH)
     apply simp
    apply (simp add: count_sentiment_def count_unlabelled_def leading_tokens_def titles_with_def)
    done
qed


lemma analyze_articles_report:
  assumes "articles \<noteq> []"
  shows "analyze_articles articles =
     \<lparr>error = None,
      sentiment_distribution = Some
        [(''Positive'', count_sentiment ''Positive'' articles),
         (''Negative'', count_sentiment ''Negative'' articles),
         (''Neutral'', count_unlabelled articles)],
      common_topics = Some
        (map (\<lambda>topic. str_title (fst topic))
           (take 3 (sorted_by_count_desc (count_topics [] (leading_tokens articles))))),
      coverage_differences = Some
        ([str_int (count_sentiment ''Positive'' articles)
            @ '' articles highlight positive developments'',
          str_int (count_sentiment ''Negative'' articles)
            @ '' articles discuss challenges/risks'']
         @ (if titles_with ''Positive'' articles \<noteq> []
            then [''Positive articles include: ''
                    @ str_join '', '' (take 2 (titles_with ''Positive'' articles))]
            else [])
         @ (if titles_with ''Negative'' articles \<noteq> []
            then [''Negative articles include: ''
                    @ str_join '', '' (take 2 (titles_with ''Negative'' articles))]
            else [])),
      final_sentiment_analysis = Some
        (overall_sentiment (count_sentiment ''Positive'' articles)
           (count_sentiment ''Negative'' articles))\<rparr>"
proof -
  have "sentiment_counts initial_tally = [(''Positive'', 0), (''Negative'', 0), (''Neutral'', 0)]"
    by (simp add: initial_tally_def)
  from tally_articles_result [OF this, of articles]
  show ?thesis using assms
    by (simp add: analyze_articles_def analyze_body_def initial_tally_def dict_item_def Let_def)
qed

lemma titles_with_empty_iff: "titles_with l articles = [] \<longleftrightarrow> count_sentiment l articles = 0"
  by (simp add: titles_with_def count_sentiment_def)

lemma count_total:
  "count_sentiment ''Positive'' articles + count_sentiment ''Negative'' articles
     + count_unlabelled articles = int (length articles)"
  by (induction articles) (auto simp: count_sentiment_def count_unlabelled_def)

subsection \<open>Counting\<close>








subsection \<open>Stable sorting\<close>









subsection \<open>The distribution, the verdict and the coverage sentences\<close>

text \<open>
  C2. For a non-empty list of articles the returned distribution has exactly the keys
  \<open>Positive\<close>, \<open>Negative\<close> and \<open>Neutral\<close>, in this order; its values are the number of
  articles labelled \<open>Positive\<close>, the number labelled \<open>Negative\<close>, and the number of all
  other articles, which are those labelled \<open>Neutral\<close> (or without a label) together with
  those whose label is none of the three. The values are non-negative and sum to the number
  of articles.
\<close>

theorem sentiment_distribution_counts:
  assumes "articles \<noteq> []"
  shows "sentiment_distribution (analyze_articles articles) = Some
           [(''Positive'', count_sentiment ''Positive'' articles),
            (''Negative'', count_sentiment ''Negative'' articles),
            (''Neutral'', count_unlabelled articles)]
       \<and> 0 \<le> count_sentiment ''Positive'' articles
       \<and> 0 \<le> count_sentiment ''Negative'' articles
       \<and> 0 \<le> count_unlabelled articles
       \<and> count_sentiment ''Positive'' articles + count_sentiment ''Negative'' articles
            + count_unlabelled articles = int (length articles)
       \<and> count_unlabelled articles
            = count_sentiment ''Neutral'' articles
              + int (length (filter (\<lambda>a. get_sentiment a \<noteq> ''Positive''
                                        \<and> get_sentiment a \<noteq> ''Negative''
                                        \<and> get_sentiment a \<noteq> ''Neutral'') articles))"
proof -
  have "count_unlabelled articles
          = count_sentiment ''Neutral'' articles
            + int (length (filter (\<lambda>a. get_sentiment a \<noteq> ''Positive''
                                      \<and> get_sentiment a \<noteq> ''Negative''
                                      \<and> get_sentiment a \<noteq> ''Neutral'') articles))"
    by (induction articles) (auto simp: count_unlabelled_def count_sentiment_def)
  moreover have "0 \<le> count_sentiment ''Positive'' articles"
    "0 \<le> count_sentiment ''Negative'' articles" "0 \<le> count_unlabelled articles"
    by (simp_all add: count_sentiment_def count_unlabelled_def)
  ultimately show ?thesis
    using count_total [of articles] by (simp add: analyze_articles_report [OF assms])
qed

theorem sentiment_distribution_counts_witness:
  "[\<lparr>title = Some ''Acme beats forecast'', sentiment = Some ''Positive''\<rparr>,
    \<lparr>title = Some ''Acme opens plant'', sentiment = Some ''Mixed''\<rparr>,
    \<lparr>title = None, sentiment = None\<rparr>] \<noteq> []
   \<and> sentiment_distribution (analyze_articles
        [\<lparr>title = Some ''Acme beats forecast'', sentiment = Some ''Positive''\<rparr>,
         \<lparr>title = Some ''Acme opens plant'', sentiment = Some ''Mixed''\<rparr>,
         \<lparr>title = None, sentiment = None\<rparr>])
      = Some [(''Positive'', 1), (''Negative'', 0), (''Neutral'', 2)]"
proof -
  have ne: "[\<lparr>title = Some ''Acme beats forecast'', sentiment = Some ''Positive''\<rparr>,
    \<lparr>title = Some ''Acme opens plant'', sentiment = Some ''Mixed''\<rparr>,
    \<lparr>title = None, sentiment = None\<rparr>] \<noteq> []"
    by simp
  from sentiment_distribution_counts [OF ne] show ?thesis
    by (simp add: count_sentiment_def count_unlabelled_def get_sentiment_def)
qed

text \<open>
  C1. For a non-empty list of articles, with \<open>P\<close> and \<open>N\<close> the counts the distribution
  holds under \<open>Positive\<close> and \<open>Negative\<close>: the verdict is the mostly-positive sentence
  exactly when \<open>P > N\<close>, the mostly-negative sentence exactly when \<open>N > P\<close>, and the
  balanced sentence exactly when \<open>P = N\<close>; it is always one of the three.
\<close>

theorem final_sentiment_by_majority:
  assumes "articles \<noteq> []"
  shows "\<exists>P N Z verdict.
           sentiment_distribution (analyze_articles articles)
             = Some [(''Positive'', P), (''Negative'', N), (''Neutral'', Z)]
         \<and> P = count_sentiment ''Positive'' articles
         \<and> N = count_sentiment ''Negative'' articles
         \<and> final_sentiment_analysis (analyze_articles articles) = Some verdict
         \<and> (verdict = ''News coverage is mostly positive.'' \<longleftrightarrow> P > N)
         \<and> (verdict = ''News coverage is mostly negative.'' \<longleftrightarrow> N > P)
         \<and> (verdict = ''Overall news coverage appears balanced.'' \<longleftrightarrow> P = N)"
  by (simp add: analyze_articles_report [OF assms] overall_sentiment_def)

theorem final_sentiment_by_majority_witness:
  "[\<lparr>title = Some ''Acme beats forecast'', sentiment = Some ''Positive''\<rparr>,
    \<lparr>title = Some ''Acme recalls pumps'', sentiment = Some ''Negative''\<rparr>,
    \<lparr>title = Some ''Acme wins award'', sentiment = Some ''Positive''\<rparr>] \<noteq> []
   \<and> final_sentiment_analysis (analyze_articles
        [\<lparr>title = Some ''Acme beats forecast'', sentiment = Some ''Positive''\<rparr>,
         \<lparr>title = Some ''Acme recalls pumps'', sentiment = Some ''Negative''\<rparr>,
         \<lparr>title = Some ''Acme wins award'', sentiment = Some ''Positive''\<rparr>])
      = Some ''News coverage is mostly positive.''"
proof -
  have ne: "[\<lparr>title = Some ''Acme beats forecast'', sentiment = Some ''Positive''\<rparr>,
    \<lparr>title = Some ''Acme recalls pumps'', sentiment = Some ''Negative''\<rparr>,
    \<lparr>title = Some ''Acme wins award'', sentiment = Some ''Positive''\<rparr>] \<noteq> []"
    by simp
  from final_sentiment_by_majority [OF ne] show ?thesis
    by (auto simp: count_sentiment_def get_sentiment_def)
qed

text \<open>
  C8. For a non-empty list of articles, \<open>coverage_differences\<close> starts with the sentence
  stating the number of positive articles, then the sentence stating the number of negative
  articles, whatever the numbers. A sentence joining the first two titles of the positive
  articles, in the order of the articles, follows exactly when there is a positive article,
  and then likewise for the negative articles.
\<close>

theorem coverage_differences_layout:
  assumes "articles \<noteq> []"
  shows "coverage_differences (analyze_articles articles) = Some
     ([str_int (count_sentiment ''Positive'' articles)
         @ '' articles highlight positive developments'',
       str_int (count_sentiment ''Negative'' articles)
         @ '' articles discuss challenges/risks'']
      @ (if 0 < count_sentiment ''Positive'' articles
         then [''Positive articles include: ''
                 @ str_join '', '' (take 2 (map get_title
                      (filter (\<lambda>a. get_sentiment a = ''Positive'') articles)))]
         else [])
      @ (if 0 < count_sentiment ''Negative'' articles
         then [''Negative articles include: ''
                 @ str_join '', '' (take 2 (map get_title
                      (filter (\<lambda>a. get_sentiment a = ''Negative'') articles)))]
         else []))"
proof -
  have "titles_with l articles \<noteq> [] \<longleftrightarrow> 0 < count_sentiment l articles" for l
    using titles_with_empty_iff [of l articles] by (simp add: count_sentiment_def)
  then show ?thesis
    by (simp add: analyze_articles_report [OF assms]) (simp add: titles_with_def)
qed

theorem coverage_differences_layout_witness:
  "[\<lparr>title = Some ''Acme beats forecast'', sentiment = Some ''Positive''\<rparr>,
    \<lparr>title = Some ''Acme opens plant'', sentiment = Some ''Neutral''\<rparr>,
    \<lparr>title = Some ''Acme wins award'', sentiment = Some ''Positive''\<rparr>,
    \<lparr>title = Some ''Acme hires chief'', sentiment = Some ''Positive''\<rparr>] \<noteq> []
   \<and> coverage_differences (analyze_articles
        [\<lparr>title = Some ''Acme beats forecast'', sentiment = Some ''Positive''\<rparr>,
         \<lparr>title = Some ''Acme opens plant'', sentiment = Some ''Neutral''\<rparr>,
         \<lparr>title = Some ''Acme wins award'', sentiment = Some ''Positive''\<rparr>,
         \<lparr>title = Some ''Acme hires chief'', sentiment = Some ''Positive''\<rparr>])
      = Some [''3 articles highlight positive developments'',
              ''0 articles discuss challenges/risks'',
              ''Positive articles include: Acme beats forecast, Acme wins award'']"
proof -
  have ne: "[\<lparr>title = Some ''Acme beats forecast'', sentiment = Some ''Positive''\<rparr>,
    \<lparr>title = Some ''Acme opens plant'', sentiment = Some ''Neutral''\<rparr>,
    \<lparr>title = Some ''Acme wins award'', sentiment = Some ''Positive''\<rparr>,
    \<lparr>title = Some ''Acme hires chief'', sentiment = Some ''Positive''\<rparr>] \<noteq> []"
    by simp
  have three: "str_int 3 = ''3''" and zero: "str_int 0 = ''0''"
    by code_simp+
  from coverage_differences_layout [OF ne] show ?thesis
    by (simp add: count_sentiment_def get_sentiment_def get_title_def three zero)
qed


section \<open>Properties of \<open>generate_tts\<close>\<close>

lemma numbered_insights:
  "map (\<lambda>(i, insight). str_int (int i) @ ''. '' @ insight) (List.enumerate 1 xs)
     = map (\<lambda>i. str_int (int i + 1) @ ''. '' @ xs ! i) [0..<length xs]"
  by (rule nth_equalityI) (simp_all add: nth_enumerate_eq add.commute)

text \<open>
  C6. The script is, in this order: the company sentence with the verdict, or with the
  placeholder when the mapping has no verdict; the sentence of the three counts, each the
  count the distribution holds or zero; the sentence of the comma-joined topics when there
  are topics; and the sentence of the insights when there are coverage differences, the
  \<open>i\<close>-th of them (from zero) carrying the number \<open>i + 1\<close>, in the order given. A mapping
  that is accepted has this script handed to the translation.
\<close>

theorem summary_text_sections:
  "build_summary_text company_name a =
     ''Company: '' @ company_name @ ''. '' @ ''Overall Sentiment: ''
       @ (case final_sentiment_analysis a of
            Some s \<Rightarrow> s | None \<Rightarrow> ''No sentiment analysis available'') @ ''. ''
     @ ''Positive articles: ''
       @ str_int (case sentiment_distribution a of
                    Some d \<Rightarrow> dict_get d ''Positive'' 0 | None \<Rightarrow> 0) @ '', ''
     @ ''Negative articles: ''
       @ str_int (case sentiment_distribution a of
                    Some d \<Rightarrow> dict_get d ''Negative'' 0 | None \<Rightarrow> 0) @ '', ''
     @ ''Neutral articles: ''
       @ str_int (case sentiment_distribution a of
                    Some d \<Rightarrow> dict_get d ''Neutral'' 0 | None \<Rightarrow> 0) @ ''. ''
     @ (case common_topics a of
          None \<Rightarrow> []
        | Some ts \<Rightarrow> if ts = [] then []
                    else ''Common topics include '' @ str_join '', '' ts @ ''. '')
     @ (case coverage_differences a of
          None \<Rightarrow> []
        | Some ds \<Rightarrow> if ds = [] then []
                    else ''Key insights are: ''
                         @ str_join '' ''
                             (map (\<lambda>i. str_int (int i + 1) @ ''. '' @ ds ! i) [0..<length ds])
                         @ ''. '')
   \<and> (truthy (PyDict a) \<and> makedirs_ok env \<longrightarrow>
        fst (generate_tts env company_name (PyDict a)) ! 1
          = Translate (build_summary_text company_name a))"
proof (rule conjI)
  show "truthy (PyDict a) \<and> makedirs_ok env \<longrightarrow>
        fst (generate_tts env company_name (PyDict a)) ! 1
          = Translate (build_summary_text company_name a)"
    by (simp add: generate_tts_def Let_def split: option.splits)
next
  show "build_summary_text company_name a =
     ''Company: '' @ company_name @ ''. '' @ ''Overall Sentiment: ''
       @ (case final_sentiment_analysis a of
            Some s \<Rightarrow> s | None \<Rightarrow> ''No sentiment analysis available'') @ ''. ''
     @ ''Positive articles: ''
       @ str_int (case sentiment_distribution a of
                    Some d \<Rightarrow> dict_get d ''Positive'' 0 | None \<Rightarrow> 0) @ '', ''
     @ ''Negative articles: ''
       @ str_int (case sentiment_distribution a of
                    Some d \<Rightarrow> dict_get d ''Negative'' 0 | None \<Rightarrow> 0) @ '', ''
     @ ''Neutral articles: ''
       @ str_int (case sentiment_distribution a of
                    Some d \<Rightarrow> dict_get d ''Neutral'' 0 | None \<Rightarrow> 0) @ ''. ''
     @ (case common_topics a of
          None \<Rightarrow> []
        | Some ts \<Rightarrow> if ts = [] then []
                    else ''Common topics include '' @ str_join '', '' ts @ ''. '')
     @ (case coverage_differences a of
          None \<Rightarrow> []
        | Some ds \<Rightarrow> if ds = [] then []
                    else ''Key insights are: ''
                         @ str_join '' ''
                             (map (\<lambda>i. str_int (int i + 1) @ ''. '' @ ds ! i) [0..<length ds])
                         @ ''. '')"
    unfolding build_summary_text_def Let_def numbered_insights
    by (cases "final_sentiment_analysis a"; cases "sentiment_distribution a";
        cases "common_topics a"; cases "coverage_differences a")
       (simp_all add: dict_get_def)
qed


theorem summary_text_sections_witness:
  "truthy (PyDict \<lparr>error = None,
                    sentiment_distribution =
                      Some [(''Positive'', 2), (''Negative'', 1), (''Neutral'', 0)],
                    common_topics = Some [''Acme'', ''Earnings''],
                    coverage_differences = Some [''Profit rose'', ''Costs fell''],
                    final_sentiment_analysis = Some ''News coverage is mostly positive.''\<rparr>)
   \<and> build_summary_text ''Acme''
         \<lparr>error = None,
          sentiment_distribution =
            Some [(''Positive'', 2), (''Negative'', 1), (''Neutral'', 0)],
          common_topics = Some [''Acme'', ''Earnings''],
          coverage_differences = Some [''Profit rose'', ''Costs fell''],
          final_sentiment_analysis = Some ''News coverage is mostly positive.''\<rparr>
       = ''Company: Acme. Overall Sentiment: News coverage is mostly positive.. Positive articles: 2, Negative articles: 1, Neutral articles: 0. Common topics include Acme, Earnings. Key insights are: 1. Profit rose 2. Costs fell. ''
   \<and> fst (generate_tts
            \<lparr>makedirs_ok = True, translate = Some, py_hash = (\<lambda>s. 7),
             tts_save = (\<lambda>t f. True), path_exists = (\<lambda>f. True)\<rparr>
            ''Acme''
            (PyDict \<lparr>error = None,
                    sentiment_distribution =
                      Some [(''Positive'', 2), (''Negative'', 1), (''Neutral'', 0)],
                    common_topics = Some [''Acme'', ''Earnings''],
                    coverage_differences = Some [''Profit rose'', ''Costs fell''],
                    final_sentiment_analysis = Some ''News coverage is mostly positive.''\<rparr>)) ! 1
       = Translate ''Company: Acme. Overall Sentiment: News coverage is mostly positive.. Positive articles: 2, Negative articles: 1, Neutral articles: 0. Common topics include Acme, Earnings. Key insights are: 1. Profit rose 2. Costs fell. ''"
proof -
  have digits: "str_int 0 = ''0''" "str_int 1 = ''1''" "str_int 2 = ''2''"
    by code_simp+
  have upt: "[0..<2] = [0, Suc 0]"
    by (simp add: upt_rec)
  show ?thesis
    using summary_text_sections
      [of "''Acme''"
          "\<lparr>error = None,
            sentiment_distribution =
              Some [(''Positive'', 2), (''Negative'', 1), (''Neutral'', 0)],
            common_topics = Some [''Acme'', ''Earnings''],
            coverage_differences = Some [''Profit rose'', ''Costs fell''],
            final_sentiment_analysis = Some ''News coverage is mostly positive.''\<rparr>"
          "\<lparr>makedirs_ok = True, translate = Some, py_hash = (\<lambda>s. 7),
            tts_save = (\<lambda>t f. True), path_exists = (\<lambda>f. True)\<rparr>"]
    by (simp add: dict_get_def digits upt empty_analysis_def)
qed

text \<open>
  C7. \<open>generate_tts\<close> given \<open>None\<close>, a mapping without keys, or anything that is not a
  mapping returns \<open>None\<close> without calling a collaborator: no directory is made, no script
  is translated, no file is written. The view answers such a payload with an error
  response.
\<close>

theorem generate_tts_rejects_invalid:
  "generate_tts env company_name PyNone = ([], None)
   \<and> generate_tts env company_name (PyDict empty_analysis) = ([], None)
   \<and> (\<not> isinstance_dict p \<longrightarrow> generate_tts env company_name p = ([], None))
   \<and> (\<not> truthy p \<or> \<not> isinstance_dict p \<longrightarrow>
        generate_tts env company_name p = ([], None)
        \<and> tts env absolute_uri company p \<in>
            {Response 400 [(''error'', ''company_name is required'')],
             Response 400 [(''error'', ''Analysis data is required'')],
             Response 500 [(''error'', ''TTS generation failed'')]})"
  by (cases p) (simp_all add: generate_tts_def tts_def Let_def)

theorem generate_tts_rejects_invalid_witness:
  "\<not> isinstance_dict (PyList [PyStr ''Profit rose''])
   \<and> generate_tts
        \<lparr>makedirs_ok = True, translate = Some, py_hash = (\<lambda>s. 7),
         tts_save = (\<lambda>t f. True), path_exists = (\<lambda>f. True)\<rparr>
        ''Acme'' (PyList [PyStr ''Profit rose'']) = ([], None)
   \<and> tts
        \<lparr>makedirs_ok = True, translate = Some, py_hash = (\<lambda>s. 7),
         tts_save = (\<lambda>t f. True), path_exists = (\<lambda>f. True)\<rparr>
        (\<lambda>f. ''http://host/media/'' @ f) ''Acme'' (PyList [PyStr ''Profit rose''])
      = Response 500 [(''error'', ''TTS generation failed'')]"
proof -
  have strip: "str_strip ''Acme'' = ''Acme''"
    by code_simp
  show ?thesis
    using generate_tts_rejects_invalid
      [of "\<lparr>makedirs_ok = True, translate = Some, py_hash = (\<lambda>s. 7),
            tts_save = (\<lambda>t f. True), path_exists = (\<lambda>f. True)\<rparr>"
          "''Acme''" "PyList [PyStr ''Profit rose'']"
          "\<lambda>f. ''http://host/media/'' @ f" "''Acme''"]
    by (simp add: tts_def Let_def strip)
qed

subsection \<open>Decimal numerals and the filename\<close>

lemma digit_char_value: "d < 10 \<Longrightarrow> (of_char (digit_char d) :: nat) = 48 + d"
  by (simp add: digit_char_def)

lemma digits_value_snoc:
  "digits_value (s @ [c]) = 10 * digits_value s + ((of_char c :: nat) - 48)"
  by (simp add: digits_value_def)

lemma digits_value_str_nat: "digits_value (str_nat n) = n"
proof (induction n rule: str_nat.induct)
  case (1 n)
  show ?case
  proof (cases "n < 10")
    case True
    then have "str_nat n = [digit_char n]" by (subst str_nat.simps) simp
    then show ?thesis
      using True digits_value_snoc [of "[]" "digit_char n"]
      by (simp add: digit_char_value digits_value_def)
  next
    case False
    then have "str_nat n = str_nat (n div 10) @ [digit_char (n mod 10)]"
      by (subst str_nat.simps) simp
    moreover have "digits_value (str_nat (n div 10)) = n div 10"
      using False "1.IH" by simp
    ultimately show ?thesis
      by (simp add: digits_value_snoc digit_char_value)
  qed
qed

lemma str_nat_inject:
  assumes "str_nat m = str_nat n"
  shows "m = n"
proof -
  have "digits_value (str_nat m) = digits_value (str_nat n)"
    by (simp only: assms)
  then show ?thesis
    by (simp only: digits_value_str_nat)
qed

lemma str_nat_head: "\<exists>d s. d < 10 \<and> str_nat n = digit_char d # s"
proof (induction n rule: str_nat.induct)
  case (1 n)
  show ?case
  proof (cases "n < 10")
    case True
    then have "str_nat n = [digit_char n]" by (subst str_nat.simps) simp
    with True show ?thesis by blast
  next
    case False
    then have eq: "str_nat n = str_nat (n div 10) @ [digit_char (n mod 10)]"
      by (subst str_nat.simps) simp
    from False "1.IH" obtain d s where "d < 10" "str_nat (n div 10) = digit_char d # s"
      by blast
    with eq show ?thesis by auto
  qed
qed

lemma str_nat_not_minus: "str_nat n \<noteq> CHR ''-'' # s"
proof
  assume a: "str_nat n = CHR ''-'' # s"
  obtain d r where d: "d < 10" and "str_nat n = digit_char d # r"
    using str_nat_head by blast
  with a have "digit_char d = CHR ''-''" by simp
  then have "(of_char (digit_char d) :: nat) = of_char (CHR ''-'')" by simp
  with d show False by (simp add: digit_char_value)
qed

lemma str_int_inject:
  assumes "str_int i = str_int j"
  shows "i = j"
proof (cases "i < 0")
  case True
  note i = this
  show ?thesis
  proof (cases "j < 0")
    case True
    with i assms have "str_nat (nat (- i)) = str_nat (nat (- j))"
      by (simp add: str_int_def)
    then have "nat (- i) = nat (- j)" by (rule str_nat_inject)
    with i True show ?thesis by simp
  next
    case False
    with i assms have "str_nat (nat j) = CHR ''-'' # str_nat (nat (- i))"
      by (simp add: str_int_def)
    then show ?thesis using str_nat_not_minus by blast
  qed
next
  case False
  note i = this
  show ?thesis
  proof (cases "j < 0")
    case True
    with i assms have "str_nat (nat i) = CHR ''-'' # str_nat (nat (- j))"
      by (simp add: str_int_def)
    then show ?thesis using str_nat_not_minus by blast
  next
    case False
    with i assms have "str_nat (nat i) = str_nat (nat j)"
      by (simp add: str_int_def)
    then have "nat i = nat j" by (rule str_nat_inject)
    with i False show ?thesis by simp
  qed
qed


lemma audio_filename_inject:
  "audio_filename e1 c s = audio_filename e2 c s \<Longrightarrow> py_hash e1 s = py_hash e2 s"
  by (simp add: audio_filename_def str_int_inject)

lemma generate_tts_filename:
  "snd (generate_tts env c (PyDict a)) = Some f \<Longrightarrow>
   f = audio_filename env c (build_summary_text c a)"
  by (simp add: generate_tts_def Let_def split: if_splits option.splits)

text \<open>
  C4. The filename \<open>generate_tts\<close> returns embeds the value the running interpreter's
  \<open>hash\<close> gives the script. A second run on the same company and the same analysis, in
  an interpreter that hashes the script to another value, never returns the filename of the
  first run.
\<close>

theorem filename_depends_on_interpreter_hash:
  assumes "snd (generate_tts env company_name (PyDict a)) = Some filename"
    and "restarted_hash (build_summary_text company_name a)
           \<noteq> py_hash env (build_summary_text company_name a)"
  shows "snd (generate_tts (env\<lparr>py_hash := restarted_hash\<rparr>) company_name (PyDict a))
           \<noteq> Some filename"
proof
  assume "snd (generate_tts (env\<lparr>py_hash := restarted_hash\<rparr>) company_name (PyDict a))
            = Some filename"
  then have "filename = audio_filename (env\<lparr>py_hash := restarted_hash\<rparr>) company_name
                          (build_summary_text company_name a)"
    by (rule generate_tts_filename)
  moreover have "filename = audio_filename env company_name (build_summary_text company_name a)"
    using assms(1) by (rule generate_tts_filename)
  ultimately have "py_hash (env\<lparr>py_hash := restarted_hash\<rparr>) (build_summary_text company_name a)
                     = py_hash env (build_summary_text company_name a)"
    using audio_filename_inject by metis
  with assms(2) show False by simp
qed

theorem filename_depends_on_interpreter_hash_witness:
  "snd (generate_tts
          \<lparr>makedirs_ok = True, translate = Some, py_hash = (\<lambda>s. 7),
           tts_save = (\<lambda>t f. True), path_exists = (\<lambda>f. True)\<rparr>
          ''Acme Corp''
          (PyDict (empty_analysis\<lparr>final_sentiment_analysis := Some ''Fine''\<rparr>)))
     = Some ''Acme_Corp_7.mp3''
   \<and> (\<lambda>s. - 8) (build_summary_text ''Acme Corp''
                      (empty_analysis\<lparr>final_sentiment_analysis := Some ''Fine''\<rparr>))
       \<noteq> py_hash \<lparr>makedirs_ok = True, translate = Some, py_hash = (\<lambda>s. 7),
                    tts_save = (\<lambda>t f. True), path_exists = (\<lambda>f. True)\<rparr>
             (build_summary_text ''Acme Corp''
                (empty_analysis\<lparr>final_sentiment_analysis := Some ''Fine''\<rparr>))
   \<and> snd (generate_tts
          \<lparr>makedirs_ok = True, translate = Some, py_hash = (\<lambda>s. - 8),
           tts_save = (\<lambda>t f. True), path_exists = (\<lambda>f. True)\<rparr>
          ''Acme Corp''
          (PyDict (empty_analysis\<lparr>final_sentiment_analysis := Some ''Fine''\<rparr>)))
     \<noteq> Some ''Acme_Corp_7.mp3''"
proof -
  have seven: "str_int 7 = ''7''"
    by code_simp
  have first: "snd (generate_tts
          \<lparr>makedirs_ok = True, translate = Some, py_hash = (\<lambda>s. 7),
           tts_save = (\<lambda>t f. True), path_exists = (\<lambda>f. True)\<rparr>
          ''Acme Corp''
          (PyDict (empty_analysis\<lparr>final_sentiment_analysis := Some ''Fine''\<rparr>)))
     = Some ''Acme_Corp_7.mp3''"
    by (simp add: generate_tts_def audio_filename_def replace_space_def empty_analysis_def
        Let_def seven)
  have differ: "(\<lambda>s. - 8) (build_summary_text ''Acme Corp''
                      (empty_analysis\<lparr>final_sentiment_analysis := Some ''Fine''\<rparr>))
       \<noteq> py_hash \<lparr>makedirs_ok = True, translate = Some, py_hash = (\<lambda>s. 7),
                    tts_save = (\<lambda>t f. True), path_exists = (\<lambda>f. True)\<rparr>
             (build_summary_text ''Acme Corp''
                (empty_analysis\<lparr>final_sentiment_analysis := Some ''Fine''\<rparr>))"
    by simp
  from filename_depends_on_interpreter_hash [OF first differ] first differ
  show ?thesis by simp
qed

end
